theory Spec2Isabelle
  imports Main "HOL-Library.Word"
begin

section \<open>Strength reduction of \<open>math.powf\<close> (AlgebraicSimplification.cpp)\<close>

text \<open>
  The file under verification holds one rewrite pattern,
  \<^verbatim>\<open>PowFStrengthReduction::matchAndRewrite\<close>. The pattern reads the operation it is
  given, asks the host whether the exponent operand is a constant, and drives the
  host's \<^verbatim>\<open>PatternRewriter\<close>. The pattern is embedded as a state-passing function
  over an explicit rewriter state; the host services it calls (types, attributes,
  constant matching, the rewriter) are not part of the file and are modelled from the
  specification, each marked as such. Source locations (\<^verbatim>\<open>op.getLoc()\<close>) carry no
  behaviour and are left out. The specification calls the pattern \<open>tryReduce\<close>, and its
  outcomes \<open>Rewritten\<close> (here \<open>success\<close>) and \<open>NoMatch\<close> (here \<open>failure\<close>).
\<close>

subsection \<open>Types, floating-point values and attributes\<close>

text \<open>
  Modelled from the spec: the type declarations (\<^verbatim>\<open>mlir/IR/BuiltinTypes.h\<close>) are
  missing. A result type is "either a scalar numeric type or a fixed-size vector of a
  numeric type". The source tells vector types from all other types
  (\<^verbatim>\<open>dyn_cast<VectorType>\<close>, line 66) and takes the element type of any shaped type
  (\<^verbatim>\<open>getElementTypeOrSelf\<close>, line 93), so the shaped types that are not vectors are
  kept as a third case, the ranked tensors.
\<close>

datatype FloatType = BF16 | F16 | F32 | F64

datatype Type =
  Float FloatType
| VectorType "nat list" FloatType
| RankedTensorType "nat list" FloatType

text \<open>\<^verbatim>\<open>getElementTypeOrSelf\<close>: the element type of a shaped type, the type itself otherwise.\<close>

fun getElementTypeOrSelf :: "Type \<Rightarrow> Type" where
  "getElementTypeOrSelf (VectorType shape elt) = Float elt"
| "getElementTypeOrSelf (RankedTensorType shape elt) = Float elt"
| "getElementTypeOrSelf (Float elt) = Float elt"

text \<open>
  Modelled from the spec: \<^verbatim>\<open>APFloat\<close> and \<^verbatim>\<open>APFloat::isExactlyValue\<close> are missing. The
  comparison is "bit-exact floating-point equality against the target value -- no
  tolerance/epsilon". The C++ argument of \<^verbatim>\<open>isExponentValue\<close> is a \<^verbatim>\<open>double\<close>; a
  floating-point value is held here as the IEEE-754 binary64 bit pattern of the number it
  denotes, and the comparison is equality of patterns. (The library converts the
  \<^verbatim>\<open>double\<close> to the format of the attribute before comparing; the four values the
  pattern asks about are exact in every format above, where both readings agree.)
\<close>

type_synonym APFloat = "64 word"

definition isExactlyValue :: "APFloat \<Rightarrow> APFloat \<Rightarrow> bool" where
  "isExactlyValue a v = (a = v)"

text \<open>The \<^verbatim>\<open>double\<close> literals of the source and of the specification's examples.\<close>

definition d_1_0 :: APFloat where "d_1_0 = 0x3FF0000000000000"            \<comment> \<open>\<^verbatim>\<open>1.0\<close>\<close>
definition d_2_0 :: APFloat where "d_2_0 = 0x4000000000000000"            \<comment> \<open>\<^verbatim>\<open>2.0\<close>\<close>
definition d_3_0 :: APFloat where "d_3_0 = 0x4008000000000000"            \<comment> \<open>\<^verbatim>\<open>3.0\<close>\<close>
definition d_neg_1_0 :: APFloat where "d_neg_1_0 = 0xBFF0000000000000"    \<comment> \<open>\<^verbatim>\<open>-1.0\<close>\<close>
definition d_0_5 :: APFloat where "d_0_5 = 0x3FE0000000000000"            \<comment> \<open>\<^verbatim>\<open>0.5\<close>\<close>
definition d_4_0 :: APFloat where "d_4_0 = 0x4010000000000000"            \<comment> \<open>\<^verbatim>\<open>4.0\<close>\<close>
definition d_neg_2_0 :: APFloat where "d_neg_2_0 = 0xC000000000000000"    \<comment> \<open>\<^verbatim>\<open>-2.0\<close>\<close>
definition d_neg_3_0 :: APFloat where "d_neg_3_0 = 0xC008000000000000"    \<comment> \<open>\<^verbatim>\<open>-3.0\<close>\<close>
definition d_1_0000001 :: APFloat where "d_1_0000001 = 0x3FF000001AD7F29B" \<comment> \<open>\<^verbatim>\<open>1.0000001\<close>\<close>

text \<open>
  Attributes of constants: \<^verbatim>\<open>FloatAttr\<close> (a type and a value) and
  \<^verbatim>\<open>DenseFPElementsAttr\<close> (a type and its elements).
\<close>

datatype Attribute = FloatAttr Type APFloat | DenseFPElementsAttr Type "APFloat list"

text \<open>
  Modelled from the spec: \<^verbatim>\<open>DenseElementsAttr::isSplat\<close> and \<^verbatim>\<open>getSplatValue\<close> are
  missing. A splat is "a vector-typed compile-time constant all of whose elements equal
  the same scalar value"; its splat value is that shared value.
\<close>

fun isSplat :: "APFloat list \<Rightarrow> bool" where
  "isSplat [] = False"
| "isSplat (v # vs) = list_all (\<lambda>w. w = v) vs"

fun getSplatValue :: "APFloat list \<Rightarrow> APFloat option" where
  "getSplatValue [] = None"
| "getSplatValue (v # vs) = Some v"

subsection \<open>Values, operations and the rewriter\<close>

text \<open>
  An SSA value is the result of an operation or a block argument; as in MLIR a value
  knows its type. Operations are identified by a number (their address in the C++).
\<close>

datatype Value = OpResult nat Type | BlockArgument nat Type

fun getType :: "Value \<Rightarrow> Type" where
  "getType (OpResult i t) = t"
| "getType (BlockArgument n t) = t"

datatype OpName = PowFOp | MulFOp | DivFOp | SqrtOp | ConstantOp | BroadcastOp | OtherOp string

record Operation =
  opId :: nat
  opName :: OpName
  operands :: "Value list"
  attr :: "Attribute option"
  resultType :: Type

text \<open>
  \<^verbatim>\<open>math::PowFOp\<close> is the typed handle the pattern receives: an operation known to be a
  power operation, with accessors \<^verbatim>\<open>lhs()\<close>, \<^verbatim>\<open>rhs()\<close> and \<^verbatim>\<open>getType()\<close>.
\<close>

record PowFOpHandle =
  powId :: nat
  lhs :: Value
  rhs :: Value
  powType :: Type

datatype LogicalResult = success | failure

text \<open>
  Modelled from the spec: \<^verbatim>\<open>PatternRewriter\<close> (mlir/IR/PatternMatch.h, Builders.h) is
  missing. The host offers "operation construction" (a new operation, inserted before the
  point of rewrite, and a reference to its result) and "substitution/replacement"
  (redirect every use of the old result to the new one and mark the old operation
  eligible for removal). The state is the block of operations in program order, the
  allocator of operation identities, the insertion point, and the operations replaced so
  far (now eligible for removal), each with the value that replaced its result.
\<close>

record PatternRewriter =
  block :: "Operation list"
  nextId :: nat
  insertionPoint :: nat
  replaced :: "(nat \<times> Value) list"

fun insertBefore :: "nat \<Rightarrow> Operation \<Rightarrow> Operation list \<Rightarrow> Operation list" where
  "insertBefore ip new [] = [new]"
| "insertBefore ip new (p # ps) =
     (if opId p = ip then new # p # ps else p # insertBefore ip new ps)"

text \<open>\<^verbatim>\<open>rewriter.create<OpTy>(loc, ...)\<close>: build the operation at the insertion point.\<close>

definition create ::
  "OpName \<Rightarrow> Value list \<Rightarrow> Attribute option \<Rightarrow> Type \<Rightarrow> PatternRewriter
    \<Rightarrow> Value \<times> PatternRewriter" where
  "create n args a t rewriter =
     (let i = nextId rewriter;
          new = \<lparr>opId = i, opName = n, operands = args, attr = a, resultType = t\<rparr>
      in (OpResult i t,
          rewriter\<lparr>block := insertBefore (insertionPoint rewriter) new (block rewriter),
                   nextId := Suc i\<rparr>))"

fun isResultOf :: "nat \<Rightarrow> Value \<Rightarrow> bool" where
  "isResultOf i (OpResult j t) = (j = i)"
| "isResultOf i (BlockArgument n t) = False"

definition replaceAllUsesWith :: "nat \<Rightarrow> Value \<Rightarrow> Operation \<Rightarrow> Operation" where
  "replaceAllUsesWith i v p =
     p\<lparr>operands := map (\<lambda>u. if isResultOf i u then v else u) (operands p)\<rparr>"

text \<open>\<^verbatim>\<open>rewriter.replaceOp(op, value)\<close>.\<close>

definition replaceOp :: "PowFOpHandle \<Rightarrow> Value \<Rightarrow> PatternRewriter \<Rightarrow> PatternRewriter" where
  "replaceOp op v rewriter =
     rewriter\<lparr>block := map (replaceAllUsesWith (powId op) v) (block rewriter),
              replaced := (powId op, v) # replaced rewriter\<rparr>"

text \<open>
  Modelled from the spec: the builders of the operations (code generated from the
  operation definitions) are missing. "Operation construction: given an operation kind
  (multiply, divide, square-root, broadcast, constant-materialize) and operand list,
  construct a new operation and obtain a reference to its result". An operation has a
  result type, which the specification leaves to the host. \<^verbatim>\<open>MulFOp\<close>, \<^verbatim>\<open>DivFOp\<close> and
  \<^verbatim>\<open>math::SqrtOp\<close> are built from their operands alone: operands and result of these
  operations have one type, and the builder reads it off the first operand (it is never
  called without operands). \<^verbatim>\<open>ConstantOp\<close> is built from an attribute and has the
  attribute's type; \<^verbatim>\<open>vector::BroadcastOp\<close> is built from the vector type and the value
  to broadcast.
\<close>

fun createArith :: "OpName \<Rightarrow> Value list \<Rightarrow> PatternRewriter \<Rightarrow> Value \<times> PatternRewriter" where
  "createArith n (a # as) rewriter = create n (a # as) None (getType a) rewriter"

definition getFloatAttr :: "Type \<Rightarrow> APFloat \<Rightarrow> Attribute" where
  "getFloatAttr t v = FloatAttr t v"

fun attrType :: "Attribute \<Rightarrow> Type" where
  "attrType (FloatAttr t v) = t"
| "attrType (DenseFPElementsAttr t vs) = t"

definition createConstant :: "Attribute \<Rightarrow> PatternRewriter \<Rightarrow> Value \<times> PatternRewriter" where
  "createConstant a rewriter = create ConstantOp [] (Some a) (attrType a) rewriter"

definition createBroadcast :: "Type \<Rightarrow> Value \<Rightarrow> PatternRewriter \<Rightarrow> Value \<times> PatternRewriter" where
  "createBroadcast vec v rewriter = create BroadcastOp [v] None vec rewriter"

text \<open>\<^verbatim>\<open>rewriter.replaceOpWithNewOp<OpTy>(op, operands)\<close>: create, then replace.\<close>

definition replaceOpWithNewOp ::
  "OpName \<Rightarrow> PowFOpHandle \<Rightarrow> Value list \<Rightarrow> PatternRewriter \<Rightarrow> PatternRewriter" where
  "replaceOpWithNewOp n op args rewriter =
     (case createArith n args rewriter of (v, rw) \<Rightarrow> replaceOp op v rw)"

subsection \<open>Constant matching\<close>

text \<open>
  Modelled from the spec: \<^verbatim>\<open>matchPattern\<close> and \<^verbatim>\<open>m_Constant\<close> (mlir/IR/Matchers.h) are
  missing. "Constant inspection: given an operand, determine if it denotes a compile-time
  scalar constant (yielding its numeric value) or a compile-time vector constant". A value
  denotes a constant when the operation defining it is a constant operation; a block
  argument never does.
\<close>

fun getDefiningOp :: "PatternRewriter \<Rightarrow> Value \<Rightarrow> Operation option" where
  "getDefiningOp rewriter (OpResult i t) = find (\<lambda>p. opId p = i) (block rewriter)"
| "getDefiningOp rewriter (BlockArgument n t) = None"

definition m_Constant :: "PatternRewriter \<Rightarrow> Value \<Rightarrow> Attribute option" where
  "m_Constant rewriter v =
     (case getDefiningOp rewriter v of
        None \<Rightarrow> None
      | Some p \<Rightarrow> if opName p = ConstantOp then attr p else None)"

text \<open>Binding to a \<^verbatim>\<open>FloatAttr\<close>, respectively to a \<^verbatim>\<open>DenseFPElementsAttr\<close>.\<close>

definition matchFloatAttr :: "PatternRewriter \<Rightarrow> Value \<Rightarrow> APFloat option" where
  "matchFloatAttr rewriter v =
     (case m_Constant rewriter v of Some (FloatAttr t c) \<Rightarrow> Some c | _ \<Rightarrow> None)"

definition matchDenseFPElementsAttr :: "PatternRewriter \<Rightarrow> Value \<Rightarrow> APFloat list option" where
  "matchDenseFPElementsAttr rewriter v =
     (case m_Constant rewriter v of Some (DenseFPElementsAttr t cs) \<Rightarrow> Some cs | _ \<Rightarrow> None)"

subsection \<open>The pattern\<close>

text \<open>
  The lambda \<^verbatim>\<open>isExponentValue\<close> (lines 52-62). Its captures \<^verbatim>\<open>isScalar\<close>,
  \<^verbatim>\<open>scalarExponent\<close>, \<^verbatim>\<open>isVector\<close> and \<^verbatim>\<open>vectorExponent\<close> are the two results of
  \<^verbatim>\<open>matchPattern\<close> (lines 48-49), passed as options.
\<close>

definition isExponentValue :: "APFloat option \<Rightarrow> APFloat list option \<Rightarrow> APFloat \<Rightarrow> bool" where
  "isExponentValue scalarExponent vectorExponent v =
     (case scalarExponent of
        Some c \<Rightarrow> isExactlyValue c v
      | None \<Rightarrow>
          (case vectorExponent of
             Some cs \<Rightarrow>
               (if isSplat cs
                then (case getSplatValue cs of Some c \<Rightarrow> isExactlyValue c v | None \<Rightarrow> False)
                else False)
           | None \<Rightarrow> False))"

text \<open>The lambda \<^verbatim>\<open>bcast\<close> (lines 65-69).\<close>

definition bcast :: "PowFOpHandle \<Rightarrow> Value \<Rightarrow> PatternRewriter \<Rightarrow> Value \<times> PatternRewriter" where
  "bcast op v rewriter =
     (case powType op of
        VectorType shape elt \<Rightarrow> createBroadcast (VectorType shape elt) v rewriter
      | _ \<Rightarrow> (v, rewriter))"

text \<open>\<^verbatim>\<open>PowFStrengthReduction::matchAndRewrite\<close> (lines 39-105), branch for branch.\<close>

definition matchAndRewrite ::
  "PowFOpHandle \<Rightarrow> PatternRewriter \<Rightarrow> LogicalResult \<times> PatternRewriter" where
  "matchAndRewrite op rewriter =
     (let x = lhs op;
          scalarExponent = matchFloatAttr rewriter (rhs op);
          vectorExponent = matchDenseFPElementsAttr rewriter (rhs op)
      in
        if isExponentValue scalarExponent vectorExponent d_1_0 then
          (success, replaceOp op x rewriter)
        else if isExponentValue scalarExponent vectorExponent d_2_0 then
          (success, replaceOpWithNewOp MulFOp op [x, x] rewriter)
        else if isExponentValue scalarExponent vectorExponent d_3_0 then
          (case createArith MulFOp [x, x] rewriter of
             (square, rw1) \<Rightarrow> (success, replaceOpWithNewOp MulFOp op [x, square] rw1))
        else if isExponentValue scalarExponent vectorExponent d_neg_1_0 then
          (case createConstant (getFloatAttr (getElementTypeOrSelf (powType op)) d_1_0) rewriter of
             (one, rw1) \<Rightarrow>
               (case bcast op one rw1 of
                  (b, rw2) \<Rightarrow> (success, replaceOpWithNewOp DivFOp op [b, x] rw2)))
        else if isExponentValue scalarExponent vectorExponent d_neg_1_0 then
          (success, replaceOpWithNewOp SqrtOp op [x] rewriter)
        else
          (failure, rewriter))"

text \<open>
  The pattern is an \<^verbatim>\<open>OpRewritePattern<math::PowFOp>\<close> (lines 30-36): the host offers
  it an operation only through a cast to \<^verbatim>\<open>math::PowFOp\<close>, after setting the insertion
  point to that operation. On any other operation the pattern is not applicable.
\<close>

definition dyn_cast_PowFOp :: "Operation \<Rightarrow> PowFOpHandle option" where
  "dyn_cast_PowFOp p =
     (case (opName p, operands p) of
        (PowFOp, [a, b]) \<Rightarrow> Some \<lparr>powId = opId p, lhs = a, rhs = b, powType = resultType p\<rparr>
      | _ \<Rightarrow> None)"

definition applyPattern :: "Operation \<Rightarrow> PatternRewriter \<Rightarrow> LogicalResult \<times> PatternRewriter" where
  "applyPattern p rewriter =
     (case dyn_cast_PowFOp p of
        None \<Rightarrow> (failure, rewriter)
      | Some op \<Rightarrow> matchAndRewrite op (rewriter\<lparr>insertionPoint := opId p\<rparr>))"

subsection \<open>The vocabulary of the specification\<close>

text \<open>
  The specification's \<open>ExponentConstant\<close>, in its words: the value of a scalar constant,
  the shared value of a vector constant whose elements are all equal, and otherwise "not
  a recognized constant".
\<close>

definition exponentConstant :: "PatternRewriter \<Rightarrow> Value \<Rightarrow> APFloat option" where
  "exponentConstant rewriter v =
     (case m_Constant rewriter v of
        Some (FloatAttr t c) \<Rightarrow> Some c
      | Some (DenseFPElementsAttr t cs) \<Rightarrow> (if isSplat cs then getSplatValue cs else None)
      | None \<Rightarrow> None)"

text \<open>The keys of the rule table, in priority order.\<close>

definition ruleKeys :: "APFloat list" where
  "ruleKeys = [d_1_0, d_2_0, d_3_0, d_neg_1_0]"

text \<open>
  The operations an invocation created, counted by the identities it allocated, and the
  operations of one kind in the block.
\<close>

definition numCreated :: "PatternRewriter \<Rightarrow> PatternRewriter \<Rightarrow> nat" where
  "numCreated before after = nextId after - nextId before"

definition countOps :: "OpName \<Rightarrow> PatternRewriter \<Rightarrow> nat" where
  "countOps n rewriter = length (filter (\<lambda>p. opName p = n) (block rewriter))"

text \<open>
  The uses of the result of operation \<open>i\<close> have been redirected to the value \<open>v\<close>: every
  operation of the block before is in the block after with those uses replaced, and in
  the block after no operand is a result of \<open>i\<close> any more (unless \<open>v\<close> is one itself).
\<close>

definition usesRedirected :: "nat \<Rightarrow> Value \<Rightarrow> PatternRewriter \<Rightarrow> PatternRewriter \<Rightarrow> bool" where
  "usesRedirected i v before after =
     (list_all (\<lambda>p. replaceAllUsesWith i v p \<in> set (block after)) (block before)
      \<and> list_all (\<lambda>p. list_all (\<lambda>u. isResultOf i u \<longrightarrow> u = v) (operands p)) (block after))"


text \<open>Identities in the block are below the allocator's next identity.\<close>

definition wellFormed :: "PatternRewriter \<Rightarrow> bool" where
  "wellFormed rewriter = list_all (\<lambda>p. opId p < nextId rewriter) (block rewriter)"

subsection \<open>Example programs\<close>

text \<open>
  \<^verbatim>\<open>%0 = constant a\<close>, \<^verbatim>\<open>%1 = powf %arg0, %0 : t\<close>, \<^verbatim>\<open>%2 = "use"(%1) : t\<close>, with the
  rewriter positioned at the power operation.
\<close>

definition exampleRewriter :: "Type \<Rightarrow> Attribute \<Rightarrow> PatternRewriter" where
  "exampleRewriter t a =
     \<lparr>block =
        [\<lparr>opId = 0, opName = ConstantOp, operands = [], attr = Some a, resultType = attrType a\<rparr>,
         \<lparr>opId = 1, opName = PowFOp, operands = [BlockArgument 0 t, OpResult 0 (attrType a)],
          attr = None, resultType = t\<rparr>,
         \<lparr>opId = 2, opName = OtherOp ''use'', operands = [OpResult 1 t], attr = None,
          resultType = t\<rparr>],
      nextId = 3, insertionPoint = 1, replaced = []\<rparr>"

definition examplePow :: "Type \<Rightarrow> Attribute \<Rightarrow> PowFOpHandle" where
  "examplePow t a =
     \<lparr>powId = 1, lhs = BlockArgument 0 t, rhs = OpResult 0 (attrType a), powType = t\<rparr>"

text \<open>A power operation whose exponent is a block argument, not a constant.\<close>

definition dynamicPow :: "Type \<Rightarrow> PowFOpHandle" where
  "dynamicPow t = \<lparr>powId = 1, lhs = BlockArgument 0 t, rhs = BlockArgument 1 t, powType = t\<rparr>"

text \<open>
  A power operation whose result type (\<^verbatim>\<open>f64\<close>) differs from the type of its base
  operand (\<^verbatim>\<open>f32\<close>), with the constant exponent \<^verbatim>\<open>1.0\<close>.
\<close>

definition mismatchedRewriter :: PatternRewriter where
  "mismatchedRewriter =
     \<lparr>block =
        [\<lparr>opId = 0, opName = ConstantOp, operands = [],
          attr = Some (FloatAttr (Float F32) d_1_0), resultType = Float F32\<rparr>,
         \<lparr>opId = 1, opName = PowFOp,
          operands = [BlockArgument 0 (Float F32), OpResult 0 (Float F32)],
          attr = None, resultType = Float F64\<rparr>,
         \<lparr>opId = 2, opName = OtherOp ''use'', operands = [OpResult 1 (Float F64)], attr = None,
          resultType = Float F64\<rparr>],
      nextId = 3, insertionPoint = 1, replaced = []\<rparr>"

definition mismatchedPow :: PowFOpHandle where
  "mismatchedPow =
     \<lparr>powId = 1, lhs = BlockArgument 0 (Float F32), rhs = OpResult 0 (Float F32),
      powType = Float F64\<rparr>"

section \<open>Properties\<close>

subsection \<open>The test on the exponent\<close>

lemma ruleKeys_distinct:
  "d_1_0 \<noteq> d_2_0" "d_1_0 \<noteq> d_3_0" "d_1_0 \<noteq> d_neg_1_0"
  "d_2_0 \<noteq> d_3_0" "d_2_0 \<noteq> d_neg_1_0" "d_3_0 \<noteq> d_neg_1_0"
  "d_2_0 \<noteq> d_1_0" "d_3_0 \<noteq> d_1_0" "d_neg_1_0 \<noteq> d_1_0"
  "d_3_0 \<noteq> d_2_0" "d_neg_1_0 \<noteq> d_2_0" "d_neg_1_0 \<noteq> d_3_0"
  by (simp_all add: d_1_0_def d_2_0_def d_3_0_def d_neg_1_0_def)

lemma isExponentValue_iff:
  "isExponentValue (matchFloatAttr rw v) (matchDenseFPElementsAttr rw v) k
     \<longleftrightarrow> exponentConstant rw v = Some k"
  by (auto simp: isExponentValue_def matchFloatAttr_def matchDenseFPElementsAttr_def
      exponentConstant_def isExactlyValue_def split: option.splits Attribute.splits)

text \<open>The pattern, branch by branch, in terms of the exponent constant.\<close>

lemma matchAndRewrite_one:
  assumes "exponentConstant rw (rhs op) = Some d_1_0"
  shows "matchAndRewrite op rw = (success, replaceOp op (lhs op) rw)"
  using assms by (simp add: matchAndRewrite_def Let_def isExponentValue_iff)

lemma matchAndRewrite_two:
  assumes "exponentConstant rw (rhs op) = Some d_2_0"
  shows "matchAndRewrite op rw = (success, replaceOpWithNewOp MulFOp op [lhs op, lhs op] rw)"
  using assms
  by (simp add: matchAndRewrite_def Let_def isExponentValue_iff ruleKeys_distinct
      del: createArith.simps)

lemma matchAndRewrite_three:
  assumes "exponentConstant rw (rhs op) = Some d_3_0"
  shows "matchAndRewrite op rw =
    (case createArith MulFOp [lhs op, lhs op] rw of
       (square, rw1) \<Rightarrow> (success, replaceOpWithNewOp MulFOp op [lhs op, square] rw1))"
  using assms
  by (simp add: matchAndRewrite_def Let_def isExponentValue_iff ruleKeys_distinct
      del: createArith.simps)

lemma matchAndRewrite_neg_one:
  assumes "exponentConstant rw (rhs op) = Some d_neg_1_0"
  shows "matchAndRewrite op rw =
    (case createConstant (getFloatAttr (getElementTypeOrSelf (powType op)) d_1_0) rw of
       (one, rw1) \<Rightarrow>
         (case bcast op one rw1 of
            (b, rw2) \<Rightarrow> (success, replaceOpWithNewOp DivFOp op [b, lhs op] rw2)))"
  using assms
  by (simp add: matchAndRewrite_def Let_def isExponentValue_iff ruleKeys_distinct
      del: createArith.simps)

lemma matchAndRewrite_other:
  assumes "exponentConstant rw (rhs op) \<notin> Some ` set ruleKeys"
  shows "matchAndRewrite op rw = (failure, rw)"
  using assms by (auto simp: matchAndRewrite_def Let_def isExponentValue_iff ruleKeys_def)

lemma exponentConstant_cases:
  obtains "exponentConstant rw v = Some d_1_0"
  | "exponentConstant rw v = Some d_2_0"
  | "exponentConstant rw v = Some d_3_0"
  | "exponentConstant rw v = Some d_neg_1_0"
  | "exponentConstant rw v \<notin> Some ` set ruleKeys"
  by (auto simp: ruleKeys_def)

subsection \<open>The host operations\<close>

lemma length_insertBefore: "length (insertBefore ip new ps) = Suc (length ps)"
  by (induction ps) simp_all

lemma count_insertBefore:
  "length (filter P (insertBefore ip new ps)) =
     (if P new then Suc (length (filter P ps)) else length (filter P ps))"
  by (induction ps) simp_all

lemma set_insertBefore: "set (insertBefore ip new ps) = insert new (set ps)"
  by (induction ps) auto

lemma replaceAllUsesWith_fields:
  "opId (replaceAllUsesWith i v p) = opId p"
  "opName (replaceAllUsesWith i v p) = opName p"
  "attr (replaceAllUsesWith i v p) = attr p"
  "resultType (replaceAllUsesWith i v p) = resultType p"
  by (simp_all add: replaceAllUsesWith_def)

lemma count_replaceAllUsesWith:
  "(\<lambda>p. opName p = n) \<circ> replaceAllUsesWith i v = (\<lambda>p. opName p = n)"
  by (simp add: fun_eq_iff replaceAllUsesWith_fields)

lemma create_eq:
  "create n args a t rw =
     (OpResult (nextId rw) t,
      rw\<lparr>block := insertBefore (insertionPoint rw)
                 \<lparr>opId = nextId rw, opName = n, operands = args, attr = a, resultType = t\<rparr>
                 (block rw),
         nextId := Suc (nextId rw)\<rparr>)"
  by (simp add: create_def Let_def)

lemma countOps_replaceOp: "countOps m (replaceOp op v rw) = countOps m rw"
  by (simp add: replaceOp_def countOps_def count_replaceAllUsesWith)

lemma example_exponentConstant:
  "exponentConstant (exampleRewriter t a) (rhs (examplePow t a)) =
     (case a of FloatAttr t' c \<Rightarrow> Some c
      | DenseFPElementsAttr t' cs \<Rightarrow> if isSplat cs then getSplatValue cs else None)"
  by (simp add: exponentConstant_def m_Constant_def exampleRewriter_def examplePow_def
      split: Attribute.splits)

lemma example_m_Constant:
  "m_Constant (exampleRewriter t a) (rhs (examplePow t a)) = Some a"
  by (simp add: m_Constant_def exampleRewriter_def examplePow_def)

lemma dynamic_m_Constant: "m_Constant rw (rhs (dynamicPow t)) = None"
  by (simp add: m_Constant_def dynamicPow_def)

lemma examplePow_fields:
  "powId (examplePow t a) = 1" "lhs (examplePow t a) = BlockArgument 0 t"
  "powType (examplePow t a) = t"
  by (simp_all add: examplePow_def)

lemma example_wellFormed: "wellFormed (exampleRewriter t a)"
  by (simp add: wellFormed_def exampleRewriter_def)

lemmas rewrite_unfold =
  replaceOpWithNewOp_def create_eq replaceOp_def createConstant_def createBroadcast_def
  bcast_def getFloatAttr_def

lemma matchAndRewrite_outcome:
  "fst (matchAndRewrite op rw) =
     (if exponentConstant rw (rhs op) \<in> Some ` set ruleKeys then success else failure)"
  by (rule exponentConstant_cases [of rw "rhs op"])
    (simp_all add: matchAndRewrite_one matchAndRewrite_two matchAndRewrite_three
      matchAndRewrite_neg_one matchAndRewrite_other ruleKeys_def split: prod.splits)

lemma matchAndRewrite_failure:
  assumes "fst (matchAndRewrite op rw) = failure"
  shows "matchAndRewrite op rw = (failure, rw)"
proof (cases "exponentConstant rw (rhs op) \<in> Some ` set ruleKeys")
  case True
  with assms show ?thesis by (simp add: matchAndRewrite_outcome)
next
  case False
  then show ?thesis by (rule matchAndRewrite_other)
qed

lemma matchAndRewrite_replaces:
  assumes "exponentConstant rw (rhs op) \<in> Some ` set ruleKeys"
  shows "map fst (replaced (snd (matchAndRewrite op rw))) = powId op # map fst (replaced rw)"
proof (rule exponentConstant_cases [of rw "rhs op"])
  assume "exponentConstant rw (rhs op) = Some d_1_0"
  then show ?thesis
    by (simp add: matchAndRewrite_one replaceOp_def)
next
  assume "exponentConstant rw (rhs op) = Some d_2_0"
  then show ?thesis
    by (simp add: matchAndRewrite_two rewrite_unfold)
next
  assume "exponentConstant rw (rhs op) = Some d_3_0"
  then show ?thesis
    by (simp add: matchAndRewrite_three rewrite_unfold)
next
  assume "exponentConstant rw (rhs op) = Some d_neg_1_0"
  then show ?thesis
    by (cases "powType op") (simp_all add: matchAndRewrite_neg_one rewrite_unfold)
next
  assume "exponentConstant rw (rhs op) \<notin> Some ` set ruleKeys"
  with assms show ?thesis by simp
qed

lemma usesRedirected_replaceOp:
  assumes "set (block rw) \<subseteq> set (block rw1)"
  shows "usesRedirected (powId op) v rw (replaceOp op v rw1)"
  using assms
  by (auto simp: usesRedirected_def replaceOp_def list_all_iff replaceAllUsesWith_def)

lemma matchAndRewrite_redirects:
  assumes "exponentConstant rw (rhs op) \<in> Some ` set ruleKeys"
  shows "\<exists>v. replaced (snd (matchAndRewrite op rw)) = (powId op, v) # replaced rw
           \<and> usesRedirected (powId op) v rw (snd (matchAndRewrite op rw))"
proof (rule exponentConstant_cases [of rw "rhs op"])
  assume "exponentConstant rw (rhs op) = Some d_1_0"
  then have "matchAndRewrite op rw = (success, replaceOp op (lhs op) rw)"
    by (rule matchAndRewrite_one)
  then show ?thesis
    using usesRedirected_replaceOp [of rw rw op "lhs op"] by (simp add: replaceOp_def)
next
  assume h: "exponentConstant rw (rhs op) = Some d_2_0"
  define rw1 where "rw1 = snd (createArith MulFOp [lhs op, lhs op] rw)"
  define v where "v = fst (createArith MulFOp [lhs op, lhs op] rw)"
  have "matchAndRewrite op rw = (success, replaceOp op v rw1)"
    by (simp add: matchAndRewrite_two [OF h] replaceOpWithNewOp_def rw1_def v_def
        split: prod.splits del: createArith.simps)
  moreover have "set (block rw) \<subseteq> set (block rw1)" "replaced rw1 = replaced rw"
    by (auto simp: rw1_def create_eq set_insertBefore)
  ultimately show ?thesis
    using usesRedirected_replaceOp [of rw rw1 op v] by (simp add: replaceOp_def)
next
  assume h: "exponentConstant rw (rhs op) = Some d_3_0"
  define rw0 where "rw0 = snd (createArith MulFOp [lhs op, lhs op] rw)"
  define sq where "sq = fst (createArith MulFOp [lhs op, lhs op] rw)"
  define rw1 where "rw1 = snd (createArith MulFOp [lhs op, sq] rw0)"
  define v where "v = fst (createArith MulFOp [lhs op, sq] rw0)"
  have "matchAndRewrite op rw = (success, replaceOp op v rw1)"
    by (simp add: matchAndRewrite_three [OF h] replaceOpWithNewOp_def rw0_def sq_def rw1_def
        v_def split: prod.splits del: createArith.simps)
  moreover have "set (block rw) \<subseteq> set (block rw1)" "replaced rw1 = replaced rw"
    by (auto simp: rw1_def rw0_def create_eq set_insertBefore)
  ultimately show ?thesis
    using usesRedirected_replaceOp [of rw rw1 op v] by (simp add: replaceOp_def)
next
  assume h: "exponentConstant rw (rhs op) = Some d_neg_1_0"
  define c where "c = createConstant (getFloatAttr (getElementTypeOrSelf (powType op)) d_1_0) rw"
  define b where "b = bcast op (fst c) (snd c)"
  define rw1 where "rw1 = snd (createArith DivFOp [fst b, lhs op] (snd b))"
  define v where "v = fst (createArith DivFOp [fst b, lhs op] (snd b))"
  have "matchAndRewrite op rw = (success, replaceOp op v rw1)"
    by (simp add: matchAndRewrite_neg_one [OF h] replaceOpWithNewOp_def c_def b_def rw1_def
        v_def split: prod.splits del: createArith.simps)
  moreover have "set (block rw) \<subseteq> set (block rw1)" "replaced rw1 = replaced rw"
    by (cases "powType op";
        auto simp: rw1_def b_def c_def bcast_def createConstant_def createBroadcast_def
          create_eq set_insertBefore)+
  ultimately show ?thesis
    using usesRedirected_replaceOp [of rw rw1 op v] by (simp add: replaceOp_def)
next
  assume "exponentConstant rw (rhs op) \<notin> Some ` set ruleKeys"
  with assms show ?thesis by simp
qed


lemma applyPattern_not_pow:
  "opName p \<noteq> PowFOp \<Longrightarrow> applyPattern p rw = (failure, rw)"
  by (cases "opName p") (simp_all add: applyPattern_def dyn_cast_PowFOp_def)

lemma old_ops_below:
  "wellFormed rw \<Longrightarrow> p \<in> set (block rw) \<Longrightarrow> opId p < nextId rw"
  by (simp add: wellFormed_def list_all_iff)

subsection \<open>When the pattern rewrites\<close>

text \<open>
  C1. The pattern rewrites if and only if the exponent operand is a scalar constant, or a
  vector constant with all elements equal, whose value is exactly one of the keys
  \<open>1.0\<close>, \<open>2.0\<close>, \<open>3.0\<close>, \<open>-1.0\<close>. In every other case it returns \<open>failure\<close> and
  the rewriter state is the one it was given: for the values \<open>0.5\<close>, \<open>4.0\<close>, \<open>-3.0\<close>,
  \<open>-2.0\<close> and \<open>1.0000001\<close> (which is not \<open>1.0\<close>), for an exponent that is not a
  constant, and for a vector constant whose elements differ. When it rewrites, the power
  operation is recorded as replaced by a value, and every use of its result in the block
  has been redirected to that value.
\<close>

theorem rewrite_iff_exact_key:
  "(fst (matchAndRewrite op rw) = success) = (exponentConstant rw (rhs op) \<in> Some ` set ruleKeys)
   \<and> (exponentConstant rw (rhs op) \<notin> Some ` set ruleKeys \<longrightarrow> matchAndRewrite op rw = (failure, rw))
   \<and> (exponentConstant rw (rhs op) \<in> Some ` {d_0_5, d_4_0, d_neg_3_0, d_neg_2_0, d_1_0000001}
        \<longrightarrow> matchAndRewrite op rw = (failure, rw))
   \<and> (m_Constant rw (rhs op) = None \<longrightarrow> matchAndRewrite op rw = (failure, rw))
   \<and> (\<forall>t cs. m_Constant rw (rhs op) = Some (DenseFPElementsAttr t cs) \<and> \<not> isSplat cs
        \<longrightarrow> matchAndRewrite op rw = (failure, rw))
   \<and> (exponentConstant rw (rhs op) \<in> Some ` set ruleKeys
        \<longrightarrow> map fst (replaced (snd (matchAndRewrite op rw))) = powId op # map fst (replaced rw))
   \<and> (exponentConstant rw (rhs op) \<in> Some ` set ruleKeys
        \<longrightarrow> (\<exists>v. replaced (snd (matchAndRewrite op rw)) = (powId op, v) # replaced rw
               \<and> usesRedirected (powId op) v rw (snd (matchAndRewrite op rw))))"
proof -
  have a: "(fst (matchAndRewrite op rw) = success) = (exponentConstant rw (rhs op) \<in> Some ` set ruleKeys)"
    by (simp add: matchAndRewrite_outcome)
  have b: "exponentConstant rw (rhs op) \<notin> Some ` set ruleKeys \<Longrightarrow> matchAndRewrite op rw = (failure, rw)"
    by (rule matchAndRewrite_other)
  have c: "exponentConstant rw (rhs op) \<in> Some ` {d_0_5, d_4_0, d_neg_3_0, d_neg_2_0, d_1_0000001}
    \<Longrightarrow> exponentConstant rw (rhs op) \<notin> Some ` set ruleKeys"
    by (auto simp: ruleKeys_def d_1_0_def d_2_0_def d_3_0_def d_neg_1_0_def
        d_0_5_def d_4_0_def d_neg_3_0_def d_neg_2_0_def d_1_0000001_def)
  have d: "m_Constant rw (rhs op) = None \<Longrightarrow> exponentConstant rw (rhs op) \<notin> Some ` set ruleKeys"
    by (auto simp: exponentConstant_def)
  have e: "m_Constant rw (rhs op) = Some (DenseFPElementsAttr t cs) \<Longrightarrow> \<not> isSplat cs
    \<Longrightarrow> exponentConstant rw (rhs op) \<notin> Some ` set ruleKeys" for t cs
    by (auto simp: exponentConstant_def)
  have f: "exponentConstant rw (rhs op) \<in> Some ` set ruleKeys
    \<Longrightarrow> map fst (replaced (snd (matchAndRewrite op rw))) = powId op # map fst (replaced rw)"
    by (rule matchAndRewrite_replaces)
  have g: "exponentConstant rw (rhs op) \<in> Some ` set ruleKeys
    \<Longrightarrow> \<exists>v. replaced (snd (matchAndRewrite op rw)) = (powId op, v) # replaced rw
          \<and> usesRedirected (powId op) v rw (snd (matchAndRewrite op rw))"
    by (rule matchAndRewrite_redirects)
  show ?thesis using a b c d e f g by blast
qed

theorem rewrite_iff_exact_key_witness:
  "matchAndRewrite (examplePow (Float F64) (FloatAttr (Float F64) d_1_0000001))
       (exampleRewriter (Float F64) (FloatAttr (Float F64) d_1_0000001))
     = (failure, exampleRewriter (Float F64) (FloatAttr (Float F64) d_1_0000001))
   \<and> fst (matchAndRewrite (examplePow (Float F32) (FloatAttr (Float F32) d_3_0))
       (exampleRewriter (Float F32) (FloatAttr (Float F32) d_3_0))) = success
   \<and> matchAndRewrite (dynamicPow (Float F32))
       (exampleRewriter (Float F32) (FloatAttr (Float F32) d_2_0))
     = (failure, exampleRewriter (Float F32) (FloatAttr (Float F32) d_2_0))
   \<and> matchAndRewrite
       (examplePow (VectorType [2] F32) (DenseFPElementsAttr (VectorType [2] F32) [d_2_0, d_3_0]))
       (exampleRewriter (VectorType [2] F32)
          (DenseFPElementsAttr (VectorType [2] F32) [d_2_0, d_3_0]))
     = (failure,
        exampleRewriter (VectorType [2] F32)
          (DenseFPElementsAttr (VectorType [2] F32) [d_2_0, d_3_0]))
   \<and> (\<exists>v. replaced (snd (matchAndRewrite (examplePow (Float F32) (FloatAttr (Float F32) d_3_0))
            (exampleRewriter (Float F32) (FloatAttr (Float F32) d_3_0)))) = [(1, v)]
         \<and> usesRedirected 1 v (exampleRewriter (Float F32) (FloatAttr (Float F32) d_3_0))
            (snd (matchAndRewrite (examplePow (Float F32) (FloatAttr (Float F32) d_3_0))
              (exampleRewriter (Float F32) (FloatAttr (Float F32) d_3_0)))))
   \<and> \<lparr>opId = 2, opName = OtherOp ''use'', operands = [OpResult 4 (Float F32)], attr = None,
        resultType = Float F32\<rparr>
     \<in> set (block (snd (matchAndRewrite (examplePow (Float F32) (FloatAttr (Float F32) d_3_0))
          (exampleRewriter (Float F32) (FloatAttr (Float F32) d_3_0)))))"
proof -
  let ?R = "exampleRewriter (Float F32) (FloatAttr (Float F32) d_3_0)"
  let ?P = "examplePow (Float F32) (FloatAttr (Float F32) d_3_0)"
  let ?use = "\<lparr>opId = 2, opName = OtherOp ''use'', operands = [OpResult 1 (Float F32)],
      attr = None, resultType = Float F32\<rparr>"
  have a: "exponentConstant (exampleRewriter (Float F64) (FloatAttr (Float F64) d_1_0000001))
      (rhs (examplePow (Float F64) (FloatAttr (Float F64) d_1_0000001)))
    \<in> Some ` {d_0_5, d_4_0, d_neg_3_0, d_neg_2_0, d_1_0000001}"
    by (simp add: example_exponentConstant)
  have b: "exponentConstant (exampleRewriter (Float F32) (FloatAttr (Float F32) d_3_0))
      (rhs (examplePow (Float F32) (FloatAttr (Float F32) d_3_0))) \<in> Some ` set ruleKeys"
    by (simp add: example_exponentConstant ruleKeys_def)
  have c: "m_Constant (exampleRewriter (Float F32) (FloatAttr (Float F32) d_2_0))
      (rhs (dynamicPow (Float F32))) = None"
    by (rule dynamic_m_Constant)
  have d: "m_Constant
      (exampleRewriter (VectorType [2] F32)
        (DenseFPElementsAttr (VectorType [2] F32) [d_2_0, d_3_0]))
      (rhs (examplePow (VectorType [2] F32)
        (DenseFPElementsAttr (VectorType [2] F32) [d_2_0, d_3_0])))
     = Some (DenseFPElementsAttr (VectorType [2] F32) [d_2_0, d_3_0])
     \<and> \<not> isSplat [d_2_0, d_3_0]"
    by (simp add: example_m_Constant ruleKeys_distinct)
  note a' = rewrite_iff_exact_key [THEN conjunct2, THEN conjunct2, THEN conjunct1, THEN mp, OF a]
  note b' = rewrite_iff_exact_key [THEN conjunct1, THEN iffD2, OF b]
  note c' = rewrite_iff_exact_key [THEN conjunct2, THEN conjunct2, THEN conjunct2, THEN conjunct1, THEN mp, OF c]
  note d' = rewrite_iff_exact_key [THEN conjunct2, THEN conjunct2, THEN conjunct2, THEN conjunct2,
      THEN conjunct1, THEN spec, THEN spec, THEN mp, OF d]
  note g' = rewrite_iff_exact_key [THEN conjunct2, THEN conjunct2, THEN conjunct2, THEN conjunct2,
      THEN conjunct2, THEN conjunct2, THEN mp, OF b]
  then obtain v where v: "replaced (snd (matchAndRewrite ?P ?R)) = (powId ?P, v) # replaced ?R"
    and red: "usesRedirected (powId ?P) v ?R (snd (matchAndRewrite ?P ?R))"
    by blast
  have h: "exponentConstant ?R (rhs ?P) = Some d_3_0"
    by (simp add: example_exponentConstant)
  have "replaced (snd (matchAndRewrite ?P ?R)) = [(1, OpResult 4 (Float F32))]"
    unfolding matchAndRewrite_three [OF h]
    by (simp add: rewrite_unfold examplePow_fields exampleRewriter_def)
  with v have v4: "v = OpResult 4 (Float F32)"
    by simp
  have e: "(\<exists>v. replaced (snd (matchAndRewrite ?P ?R)) = [(1, v)]
      \<and> usesRedirected 1 v ?R (snd (matchAndRewrite ?P ?R)))"
    using v red by (auto simp: examplePow_fields exampleRewriter_def)
  have "?use \<in> set (block ?R)"
    by (simp add: exampleRewriter_def)
  with red have "replaceAllUsesWith (powId ?P) v ?use \<in> set (block (snd (matchAndRewrite ?P ?R)))"
    by (simp add: usesRedirected_def list_all_iff)
  then have u: "\<lparr>opId = 2, opName = OtherOp ''use'', operands = [OpResult 4 (Float F32)],
      attr = None, resultType = Float F32\<rparr> \<in> set (block (snd (matchAndRewrite ?P ?R)))"
    by (simp add: v4 replaceAllUsesWith_def examplePow_fields)
  show ?thesis
    using a' b' c' d' e u by simp
qed


subsection \<open>The four rules\<close>

text \<open>
  C2. When the exponent is the constant \<open>1.0\<close>, the pattern returns \<open>success\<close>, every
  use of the result of the power operation becomes the base operand \<open>x\<close> itself, and
  no operation is created: the block holds the same operations as before.
\<close>

theorem pow_one_is_base:
  assumes "exponentConstant rw (rhs op) = Some d_1_0"
  shows "matchAndRewrite op rw =
           (success,
            rw\<lparr>block := map (replaceAllUsesWith (powId op) (lhs op)) (block rw),
               replaced := (powId op, lhs op) # replaced rw\<rparr>)
         \<and> numCreated rw (snd (matchAndRewrite op rw)) = 0
         \<and> map opId (block (snd (matchAndRewrite op rw))) = map opId (block rw)
         \<and> map opName (block (snd (matchAndRewrite op rw))) = map opName (block rw)"
  by (simp add: matchAndRewrite_one [OF assms] replaceOp_def numCreated_def
      replaceAllUsesWith_fields comp_def)

theorem pow_one_is_base_witness:
  "exponentConstant (exampleRewriter (Float F32) (FloatAttr (Float F32) d_1_0))
      (rhs (examplePow (Float F32) (FloatAttr (Float F32) d_1_0))) = Some d_1_0
   \<and> matchAndRewrite (examplePow (Float F32) (FloatAttr (Float F32) d_1_0))
        (exampleRewriter (Float F32) (FloatAttr (Float F32) d_1_0)) =
      (success,
       \<lparr>block =
          [\<lparr>opId = 0, opName = ConstantOp, operands = [],
            attr = Some (FloatAttr (Float F32) d_1_0), resultType = Float F32\<rparr>,
           \<lparr>opId = 1, opName = PowFOp,
            operands = [BlockArgument 0 (Float F32), OpResult 0 (Float F32)],
            attr = None, resultType = Float F32\<rparr>,
           \<lparr>opId = 2, opName = OtherOp ''use'', operands = [BlockArgument 0 (Float F32)],
            attr = None, resultType = Float F32\<rparr>],
        nextId = 3, insertionPoint = 1, replaced = [(1, BlockArgument 0 (Float F32))]\<rparr>)"
proof -
  have h: "exponentConstant (exampleRewriter (Float F32) (FloatAttr (Float F32) d_1_0))
      (rhs (examplePow (Float F32) (FloatAttr (Float F32) d_1_0))) = Some d_1_0"
    by (simp add: example_exponentConstant)
  show ?thesis
    using h pow_one_is_base [OF h]
    by (simp add: exampleRewriter_def examplePow_def replaceAllUsesWith_def)
qed

text \<open>
  C3. When the exponent is the constant \<open>2.0\<close>, the pattern returns \<open>success\<close>, creates
  exactly one operation, the multiply of \<open>x\<close> by \<open>x\<close>, and every use of the result of
  the power operation becomes the result of that multiply.
\<close>

theorem pow_two_is_square:
  assumes "exponentConstant rw (rhs op) = Some d_2_0"
  shows "matchAndRewrite op rw =
           (success,
            rw\<lparr>block :=
                 map (replaceAllUsesWith (powId op) (OpResult (nextId rw) (getType (lhs op))))
                   (insertBefore (insertionPoint rw)
                      \<lparr>opId = nextId rw, opName = MulFOp, operands = [lhs op, lhs op],
                       attr = None, resultType = getType (lhs op)\<rparr>
                      (block rw)),
               nextId := Suc (nextId rw),
               replaced := (powId op, OpResult (nextId rw) (getType (lhs op))) # replaced rw\<rparr>)
         \<and> numCreated rw (snd (matchAndRewrite op rw)) = 1
         \<and> length (block (snd (matchAndRewrite op rw))) = Suc (length (block rw))
         \<and> countOps MulFOp (snd (matchAndRewrite op rw)) = Suc (countOps MulFOp rw)"
  by (simp add: matchAndRewrite_two [OF assms] replaceOpWithNewOp_def create_eq replaceOp_def
      numCreated_def length_insertBefore countOps_def count_replaceAllUsesWith count_insertBefore
      replaceAllUsesWith_fields)

theorem pow_two_is_square_witness:
  "exponentConstant (exampleRewriter (Float F32) (FloatAttr (Float F32) d_2_0))
      (rhs (examplePow (Float F32) (FloatAttr (Float F32) d_2_0))) = Some d_2_0
   \<and> matchAndRewrite (examplePow (Float F32) (FloatAttr (Float F32) d_2_0))
        (exampleRewriter (Float F32) (FloatAttr (Float F32) d_2_0)) =
      (success,
       \<lparr>block =
          [\<lparr>opId = 0, opName = ConstantOp, operands = [],
            attr = Some (FloatAttr (Float F32) d_2_0), resultType = Float F32\<rparr>,
           \<lparr>opId = 3, opName = MulFOp,
            operands = [BlockArgument 0 (Float F32), BlockArgument 0 (Float F32)],
            attr = None, resultType = Float F32\<rparr>,
           \<lparr>opId = 1, opName = PowFOp,
            operands = [BlockArgument 0 (Float F32), OpResult 0 (Float F32)],
            attr = None, resultType = Float F32\<rparr>,
           \<lparr>opId = 2, opName = OtherOp ''use'', operands = [OpResult 3 (Float F32)],
            attr = None, resultType = Float F32\<rparr>],
        nextId = 4, insertionPoint = 1, replaced = [(1, OpResult 3 (Float F32))]\<rparr>)"
proof -
  have h: "exponentConstant (exampleRewriter (Float F32) (FloatAttr (Float F32) d_2_0))
      (rhs (examplePow (Float F32) (FloatAttr (Float F32) d_2_0))) = Some d_2_0"
    by (simp add: example_exponentConstant)
  show ?thesis
    using h pow_two_is_square [OF h]
    by (simp add: exampleRewriter_def examplePow_def replaceAllUsesWith_def)
qed

text \<open>
  C4. When the exponent is the constant \<open>3.0\<close>, the pattern creates exactly two
  multiplies: first \<open>x * x\<close>, then \<open>x\<close> times the result of that first multiply,
  which replaces the result of the power operation.
\<close>

theorem pow_three_is_two_multiplies:
  assumes "exponentConstant rw (rhs op) = Some d_3_0"
  shows "matchAndRewrite op rw =
           (success,
            rw\<lparr>block :=
                 map (replaceAllUsesWith (powId op) (OpResult (Suc (nextId rw)) (getType (lhs op))))
                   (insertBefore (insertionPoint rw)
                      \<lparr>opId = Suc (nextId rw), opName = MulFOp,
                       operands = [lhs op, OpResult (nextId rw) (getType (lhs op))],
                       attr = None, resultType = getType (lhs op)\<rparr>
                      (insertBefore (insertionPoint rw)
                         \<lparr>opId = nextId rw, opName = MulFOp, operands = [lhs op, lhs op],
                          attr = None, resultType = getType (lhs op)\<rparr>
                         (block rw))),
               nextId := Suc (Suc (nextId rw)),
               replaced :=
                 (powId op, OpResult (Suc (nextId rw)) (getType (lhs op))) # replaced rw\<rparr>)
         \<and> numCreated rw (snd (matchAndRewrite op rw)) = 2
         \<and> length (block (snd (matchAndRewrite op rw))) = Suc (Suc (length (block rw)))
         \<and> countOps MulFOp (snd (matchAndRewrite op rw)) = Suc (Suc (countOps MulFOp rw))"
  by (simp add: matchAndRewrite_three [OF assms] replaceOpWithNewOp_def create_eq replaceOp_def
      numCreated_def length_insertBefore countOps_def count_replaceAllUsesWith count_insertBefore
      replaceAllUsesWith_fields)

theorem pow_three_is_two_multiplies_witness:
  "exponentConstant (exampleRewriter (Float F32) (FloatAttr (Float F32) d_3_0))
      (rhs (examplePow (Float F32) (FloatAttr (Float F32) d_3_0))) = Some d_3_0
   \<and> matchAndRewrite (examplePow (Float F32) (FloatAttr (Float F32) d_3_0))
        (exampleRewriter (Float F32) (FloatAttr (Float F32) d_3_0)) =
      (success,
       \<lparr>block =
          [\<lparr>opId = 0, opName = ConstantOp, operands = [],
            attr = Some (FloatAttr (Float F32) d_3_0), resultType = Float F32\<rparr>,
           \<lparr>opId = 3, opName = MulFOp,
            operands = [BlockArgument 0 (Float F32), BlockArgument 0 (Float F32)],
            attr = None, resultType = Float F32\<rparr>,
           \<lparr>opId = 4, opName = MulFOp,
            operands = [BlockArgument 0 (Float F32), OpResult 3 (Float F32)],
            attr = None, resultType = Float F32\<rparr>,
           \<lparr>opId = 1, opName = PowFOp,
            operands = [BlockArgument 0 (Float F32), OpResult 0 (Float F32)],
            attr = None, resultType = Float F32\<rparr>,
           \<lparr>opId = 2, opName = OtherOp ''use'', operands = [OpResult 4 (Float F32)],
            attr = None, resultType = Float F32\<rparr>],
        nextId = 5, insertionPoint = 1, replaced = [(1, OpResult 4 (Float F32))]\<rparr>)"
proof -
  have h: "exponentConstant (exampleRewriter (Float F32) (FloatAttr (Float F32) d_3_0))
      (rhs (examplePow (Float F32) (FloatAttr (Float F32) d_3_0))) = Some d_3_0"
    by (simp add: example_exponentConstant)
  show ?thesis
    using h pow_three_is_two_multiplies [OF h]
    by (simp add: exampleRewriter_def examplePow_def replaceAllUsesWith_def)
qed



subsection \<open>The unreachable square-root rule\<close>

text \<open>
  C6. The pattern never creates a square-root operation: the branch that would do so
  tests the exponent against \<open>-1.0\<close> a second time, after the branch of the reciprocal
  has returned on that same test. Whatever the input, the block holds as many
  square-root operations afterwards as before.
\<close>

theorem sqrt_never_constructed:
  "countOps SqrtOp (snd (matchAndRewrite op rw)) = countOps SqrtOp rw"
proof (rule exponentConstant_cases [of rw "rhs op"])
  assume "exponentConstant rw (rhs op) = Some d_1_0"
  then show ?thesis
    by (simp add: matchAndRewrite_one countOps_replaceOp)
next
  assume "exponentConstant rw (rhs op) = Some d_2_0"
  then show ?thesis
    by (simp add: matchAndRewrite_two rewrite_unfold countOps_def count_replaceAllUsesWith
        count_insertBefore replaceAllUsesWith_fields)
next
  assume "exponentConstant rw (rhs op) = Some d_3_0"
  then show ?thesis
    by (simp add: matchAndRewrite_three rewrite_unfold countOps_def count_replaceAllUsesWith
        count_insertBefore replaceAllUsesWith_fields)
next
  assume "exponentConstant rw (rhs op) = Some d_neg_1_0"
  then show ?thesis
    by (cases "powType op")
      (simp_all add: matchAndRewrite_neg_one rewrite_unfold countOps_def
        count_replaceAllUsesWith count_insertBefore replaceAllUsesWith_fields)
next
  assume "exponentConstant rw (rhs op) \<notin> Some ` set ruleKeys"
  then show ?thesis
    by (simp add: matchAndRewrite_other)
qed

theorem sqrt_never_constructed_witness:
  "countOps SqrtOp
     (snd (matchAndRewrite (examplePow (Float F64) (FloatAttr (Float F64) d_neg_1_0))
        (exampleRewriter (Float F64) (FloatAttr (Float F64) d_neg_1_0)))) = 0"
  using sqrt_never_constructed [where
      op = "examplePow (Float F64) (FloatAttr (Float F64) d_neg_1_0)"
      and rw = "exampleRewriter (Float F64) (FloatAttr (Float F64) d_neg_1_0)"]
  by (simp add: countOps_def exampleRewriter_def)

subsection \<open>The number of operations created\<close>

text \<open>
  C7, as stated, fails: the claim bounds the operations created by one invocation by
  two. For the exponent \<open>-1.0\<close> and a vector result type the pattern creates three: the
  constant \<open>1.0\<close>, its broadcast, and the divide.
\<close>

theorem vector_reciprocal_creates_three:
  "\<not> numCreated
       (exampleRewriter (VectorType [4] F32)
         (DenseFPElementsAttr (VectorType [4] F32) [d_neg_1_0, d_neg_1_0, d_neg_1_0, d_neg_1_0]))
       (snd (matchAndRewrite
          (examplePow (VectorType [4] F32)
         (DenseFPElementsAttr (VectorType [4] F32) [d_neg_1_0, d_neg_1_0, d_neg_1_0, d_neg_1_0]))
          (exampleRewriter (VectorType [4] F32)
         (DenseFPElementsAttr (VectorType [4] F32) [d_neg_1_0, d_neg_1_0, d_neg_1_0, d_neg_1_0])))) \<le> 2"
proof -
  have h: "exponentConstant
      (exampleRewriter (VectorType [4] F32)
         (DenseFPElementsAttr (VectorType [4] F32) [d_neg_1_0, d_neg_1_0, d_neg_1_0, d_neg_1_0]))
      (rhs (examplePow (VectorType [4] F32)
         (DenseFPElementsAttr (VectorType [4] F32) [d_neg_1_0, d_neg_1_0, d_neg_1_0, d_neg_1_0]))) = Some d_neg_1_0"
    by (simp add: example_exponentConstant)
  show ?thesis
    by (simp add: matchAndRewrite_neg_one [OF h] rewrite_unfold numCreated_def
        examplePow_fields)
qed

text \<open>
  C7, amended. One invocation creates at most three operations: none for the exponent
  \<open>1.0\<close>, one for \<open>2.0\<close>, two for \<open>3.0\<close>; for \<open>-1.0\<close> two when the result type is
  scalar, or any other type that is not a vector (the constant and the divide), and three
  when it is a vector (the constant, the broadcast and the divide); none when the pattern
  does not match. Every operation created is in the block.
\<close>

theorem at_most_three_created:
  "numCreated rw (snd (matchAndRewrite op rw)) =
     (if exponentConstant rw (rhs op) = Some d_1_0 then 0
      else if exponentConstant rw (rhs op) = Some d_2_0 then 1
      else if exponentConstant rw (rhs op) = Some d_3_0 then 2
      else if exponentConstant rw (rhs op) = Some d_neg_1_0 then
        (case powType op of VectorType shape elt \<Rightarrow> 3 | _ \<Rightarrow> 2)
      else 0)
   \<and> numCreated rw (snd (matchAndRewrite op rw)) \<le> 3
   \<and> length (block (snd (matchAndRewrite op rw))) =
       length (block rw) + numCreated rw (snd (matchAndRewrite op rw))"
proof (rule exponentConstant_cases [of rw "rhs op"])
  assume "exponentConstant rw (rhs op) = Some d_1_0"
  then show ?thesis
    by (simp add: matchAndRewrite_one replaceOp_def numCreated_def)
next
  assume "exponentConstant rw (rhs op) = Some d_2_0"
  then show ?thesis
    by (simp add: matchAndRewrite_two rewrite_unfold numCreated_def length_insertBefore
        ruleKeys_distinct)
next
  assume "exponentConstant rw (rhs op) = Some d_3_0"
  then show ?thesis
    by (simp add: matchAndRewrite_three rewrite_unfold numCreated_def length_insertBefore
        ruleKeys_distinct)
next
  assume "exponentConstant rw (rhs op) = Some d_neg_1_0"
  then show ?thesis
    by (cases "powType op")
      (simp_all add: matchAndRewrite_neg_one rewrite_unfold numCreated_def length_insertBefore
        ruleKeys_distinct)
next
  assume other: "exponentConstant rw (rhs op) \<notin> Some ` set ruleKeys"
  then have "exponentConstant rw (rhs op) \<noteq> Some d_1_0"
    "exponentConstant rw (rhs op) \<noteq> Some d_2_0"
    "exponentConstant rw (rhs op) \<noteq> Some d_3_0"
    "exponentConstant rw (rhs op) \<noteq> Some d_neg_1_0"
    by (auto simp: ruleKeys_def)
  then show ?thesis
    by (simp add: matchAndRewrite_other [OF other] numCreated_def)
qed

theorem at_most_three_created_witness:
  "numCreated
     (exampleRewriter (VectorType [4] F32)
         (DenseFPElementsAttr (VectorType [4] F32) [d_neg_1_0, d_neg_1_0, d_neg_1_0, d_neg_1_0]))
     (snd (matchAndRewrite
        (examplePow (VectorType [4] F32)
         (DenseFPElementsAttr (VectorType [4] F32) [d_neg_1_0, d_neg_1_0, d_neg_1_0, d_neg_1_0]))
        (exampleRewriter (VectorType [4] F32)
         (DenseFPElementsAttr (VectorType [4] F32) [d_neg_1_0, d_neg_1_0, d_neg_1_0, d_neg_1_0])))) = 3
   \<and> numCreated (exampleRewriter (Float F64) (FloatAttr (Float F64) d_neg_1_0))
       (snd (matchAndRewrite (examplePow (Float F64) (FloatAttr (Float F64) d_neg_1_0))
          (exampleRewriter (Float F64) (FloatAttr (Float F64) d_neg_1_0)))) = 2"
proof -
  have h: "exponentConstant
      (exampleRewriter (VectorType [4] F32)
         (DenseFPElementsAttr (VectorType [4] F32) [d_neg_1_0, d_neg_1_0, d_neg_1_0, d_neg_1_0]))
      (rhs (examplePow (VectorType [4] F32)
         (DenseFPElementsAttr (VectorType [4] F32) [d_neg_1_0, d_neg_1_0, d_neg_1_0, d_neg_1_0]))) = Some d_neg_1_0"
    by (simp add: example_exponentConstant)
  have k: "exponentConstant (exampleRewriter (Float F64) (FloatAttr (Float F64) d_neg_1_0))
      (rhs (examplePow (Float F64) (FloatAttr (Float F64) d_neg_1_0))) = Some d_neg_1_0"
    by (simp add: example_exponentConstant)
  show ?thesis
    using
      at_most_three_created [where rw =
        "exampleRewriter (VectorType [4] F32)
           (DenseFPElementsAttr (VectorType [4] F32) [d_neg_1_0, d_neg_1_0, d_neg_1_0, d_neg_1_0])"
        and op = "examplePow (VectorType [4] F32)
           (DenseFPElementsAttr (VectorType [4] F32) [d_neg_1_0, d_neg_1_0, d_neg_1_0, d_neg_1_0])"]
      at_most_three_created [where
        rw = "exampleRewriter (Float F64) (FloatAttr (Float F64) d_neg_1_0)"
        and op = "examplePow (Float F64) (FloatAttr (Float F64) d_neg_1_0)"]
    by (simp add: h k ruleKeys_distinct examplePow_fields)
qed

subsection \<open>Operations of an unexpected shape\<close>

text \<open>
  C8, as stated, fails: the claim has the pattern fail with an
  \<open>InvalidOperationShape\<close> condition, and leave the program alone, when the result type
  of the operation is inconsistent with the type of its base operand. The pattern makes no
  such test. On a power operation of result type \<^verbatim>\<open>f64\<close> with a base of type \<^verbatim>\<open>f32\<close>
  and the exponent \<open>1.0\<close> it returns \<open>success\<close> and redirects the use of the result to
  the base.
\<close>

theorem mismatched_shape_is_rewritten:
  "getType (lhs mismatchedPow) \<noteq> powType mismatchedPow
   \<and> matchAndRewrite mismatchedPow mismatchedRewriter =
      (success,
       \<lparr>block =
          [\<lparr>opId = 0, opName = ConstantOp, operands = [],
            attr = Some (FloatAttr (Float F32) d_1_0), resultType = Float F32\<rparr>,
           \<lparr>opId = 1, opName = PowFOp,
            operands = [BlockArgument 0 (Float F32), OpResult 0 (Float F32)],
            attr = None, resultType = Float F64\<rparr>,
           \<lparr>opId = 2, opName = OtherOp ''use'', operands = [BlockArgument 0 (Float F32)],
            attr = None, resultType = Float F64\<rparr>],
        nextId = 3, insertionPoint = 1, replaced = [(1, BlockArgument 0 (Float F32))]\<rparr>)
   \<and> snd (matchAndRewrite mismatchedPow mismatchedRewriter) \<noteq> mismatchedRewriter"
proof -
  have h: "exponentConstant mismatchedRewriter (rhs mismatchedPow) = Some d_1_0"
    by (simp add: exponentConstant_def m_Constant_def mismatchedRewriter_def mismatchedPow_def)
  have eq: "matchAndRewrite mismatchedPow mismatchedRewriter =
      (success, replaceOp mismatchedPow (lhs mismatchedPow) mismatchedRewriter)"
    by (rule matchAndRewrite_one [OF h])
  show ?thesis
    unfolding eq
    by (simp add: replaceOp_def replaceAllUsesWith_def mismatchedRewriter_def mismatchedPow_def)
qed

text \<open>
  C8, amended. The pattern does not examine the shape of the operation it is given. That
  the operation has two operands is guaranteed by the type of its argument,
  \<^verbatim>\<open>math::PowFOp\<close>. Its outcome does not depend on the base operand or on the result
  type, whether they agree or not: it is \<open>success\<close>, or \<open>failure\<close> with the rewriter
  state unchanged, and there is no third outcome.
\<close>

theorem outcome_ignores_shape:
  "fst (matchAndRewrite (op\<lparr>lhs := x', powType := t'\<rparr>) rw) = fst (matchAndRewrite op rw)
   \<and> (fst (matchAndRewrite op rw) = success \<or> matchAndRewrite op rw = (failure, rw))"
proof -
  have "fst (matchAndRewrite (op\<lparr>lhs := x', powType := t'\<rparr>) rw) = fst (matchAndRewrite op rw)"
    by (simp add: matchAndRewrite_outcome)
  moreover have "fst (matchAndRewrite op rw) = success \<or> matchAndRewrite op rw = (failure, rw)"
    using matchAndRewrite_failure [of op rw] by (cases "fst (matchAndRewrite op rw)") simp_all
  ultimately show ?thesis by simp
qed

theorem outcome_ignores_shape_witness:
  "fst (matchAndRewrite
      ((examplePow (Float F32) (FloatAttr (Float F32) d_2_0))
         \<lparr>lhs := BlockArgument 0 (Float F64), powType := VectorType [4] F16\<rparr>)
      (exampleRewriter (Float F32) (FloatAttr (Float F32) d_2_0))) = success"
proof -
  have "fst (matchAndRewrite (examplePow (Float F32) (FloatAttr (Float F32) d_2_0))
      (exampleRewriter (Float F32) (FloatAttr (Float F32) d_2_0))) = success"
    by (simp add: matchAndRewrite_outcome example_exponentConstant ruleKeys_def)
  with outcome_ignores_shape [
      where op = "examplePow (Float F32) (FloatAttr (Float F32) d_2_0)"
        and x' = "BlockArgument 0 (Float F64)" and t' = "VectorType [4] F16"
        and rw = "exampleRewriter (Float F32) (FloatAttr (Float F32) d_2_0)",
      THEN conjunct1]
  show ?thesis by (rule trans)
qed

subsection \<open>Idempotence\<close>

text \<open>
  C9. No operation created by the pattern is a power operation. In a rewriter state
  whose operations have identities below the allocator's next one, the operations of the
  block that the invocation created (those with an identity from the old next one on) are
  not power operations, and offering any of them to the pattern returns \<open>failure\<close> and
  leaves the state as it is; the number of power operations in the block does not change.
  An invocation that returned \<open>failure\<close> left the state unchanged, so that invoking
  the pattern again on the same operation returns \<open>failure\<close> again.
\<close>

theorem rewrite_is_idempotent:
  assumes "wellFormed rw"
  shows "(\<forall>p \<in> set (block (snd (matchAndRewrite op rw))).
            nextId rw \<le> opId p \<longrightarrow>
              opName p \<noteq> PowFOp
              \<and> applyPattern p (snd (matchAndRewrite op rw)) =
                  (failure, snd (matchAndRewrite op rw)))
       \<and> countOps PowFOp (snd (matchAndRewrite op rw)) = countOps PowFOp rw
       \<and> (fst (matchAndRewrite op rw) = failure \<longrightarrow>
            matchAndRewrite op (snd (matchAndRewrite op rw)) = (failure, snd (matchAndRewrite op rw))
            \<and> snd (matchAndRewrite op rw) = rw)"
proof -
  have new: "opName p \<noteq> PowFOp"
    if "p \<in> set (block (snd (matchAndRewrite op rw)))" "nextId rw \<le> opId p" for p
  proof (rule exponentConstant_cases [of rw "rhs op"])
    assume "exponentConstant rw (rhs op) = Some d_1_0"
    with that old_ops_below [OF assms] show ?thesis
      by (fastforce simp: matchAndRewrite_one replaceOp_def replaceAllUsesWith_fields)
  next
    assume "exponentConstant rw (rhs op) = Some d_2_0"
    with that old_ops_below [OF assms] show ?thesis
      by (fastforce simp: matchAndRewrite_two rewrite_unfold set_insertBefore
          replaceAllUsesWith_fields)
  next
    assume "exponentConstant rw (rhs op) = Some d_3_0"
    with that old_ops_below [OF assms] show ?thesis
      by (fastforce simp: matchAndRewrite_three rewrite_unfold set_insertBefore
          replaceAllUsesWith_fields)
  next
    assume "exponentConstant rw (rhs op) = Some d_neg_1_0"
    with that old_ops_below [OF assms] show ?thesis
      by (cases "powType op")
        (fastforce simp: matchAndRewrite_neg_one rewrite_unfold set_insertBefore
          replaceAllUsesWith_fields)+
  next
    assume "exponentConstant rw (rhs op) \<notin> Some ` set ruleKeys"
    with that old_ops_below [OF assms] show ?thesis
      by (fastforce simp: matchAndRewrite_other)
  qed
  have count: "countOps PowFOp (snd (matchAndRewrite op rw)) = countOps PowFOp rw"
  proof (rule exponentConstant_cases [of rw "rhs op"])
    assume "exponentConstant rw (rhs op) = Some d_neg_1_0"
    then show ?thesis
      by (cases "powType op")
        (simp_all add: matchAndRewrite_neg_one rewrite_unfold countOps_def
          count_replaceAllUsesWith count_insertBefore replaceAllUsesWith_fields)
  qed (simp_all add: matchAndRewrite_one matchAndRewrite_two matchAndRewrite_three
        matchAndRewrite_other rewrite_unfold countOps_def
        count_replaceAllUsesWith count_insertBefore replaceAllUsesWith_fields)
  show ?thesis
    using new count matchAndRewrite_failure [of op rw] by (auto simp: applyPattern_not_pow)
qed

theorem rewrite_is_idempotent_witness:
  "wellFormed (exampleRewriter (Float F32) (FloatAttr (Float F32) d_2_0))
   \<and> applyPattern
       \<lparr>opId = 3, opName = MulFOp,
        operands = [BlockArgument 0 (Float F32), BlockArgument 0 (Float F32)],
        attr = None, resultType = Float F32\<rparr>
       (snd (matchAndRewrite (examplePow (Float F32) (FloatAttr (Float F32) d_2_0))
          (exampleRewriter (Float F32) (FloatAttr (Float F32) d_2_0))))
     = (failure,
        snd (matchAndRewrite (examplePow (Float F32) (FloatAttr (Float F32) d_2_0))
          (exampleRewriter (Float F32) (FloatAttr (Float F32) d_2_0))))
   \<and> countOps PowFOp
       (snd (matchAndRewrite (examplePow (Float F32) (FloatAttr (Float F32) d_2_0))
          (exampleRewriter (Float F32) (FloatAttr (Float F32) d_2_0)))) = 1"
proof -
  let ?R = "exampleRewriter (Float F32) (FloatAttr (Float F32) d_2_0)"
  let ?P = "examplePow (Float F32) (FloatAttr (Float F32) d_2_0)"
  let ?m = "\<lparr>opId = 3, opName = MulFOp,
        operands = [BlockArgument 0 (Float F32), BlockArgument 0 (Float F32)],
        attr = None, resultType = Float F32\<rparr>"
  have h: "exponentConstant ?R (rhs ?P) = Some d_2_0"
    by (simp add: example_exponentConstant)
  have mem: "?m \<in> set (block (snd (matchAndRewrite ?P ?R)))"
    unfolding matchAndRewrite_two [OF h]
    by (simp add: rewrite_unfold examplePow_fields replaceAllUsesWith_def exampleRewriter_def)
  have new: "nextId ?R \<le> opId ?m"
    by (simp add: exampleRewriter_def)
  have count: "countOps PowFOp ?R = 1"
    by (simp add: countOps_def exampleRewriter_def)
  note idem = rewrite_is_idempotent [where rw = ?R and op = ?P, OF example_wellFormed]
  from idem [THEN conjunct1, THEN bspec, OF mem, THEN mp, OF new]
    idem [THEN conjunct2, THEN conjunct1] count example_wellFormed [of "Float F32"
      "FloatAttr (Float F32) d_2_0"]
  show ?thesis by simp
qed

subsection \<open>Types\<close>




end
